theory Spec2Isabelle
  imports Main "HOL-Library.Word"
begin

section \<open>JavaScript values\<close>

text \<open>
  The repository holds three versions of one HTTP handler, \<open>getPharmacyData\<close>:
  \<^verbatim>\<open>src/pharmacy-backend-function/index.js\<close>, \<^verbatim>\<open>src/unnamed/part_000\<close> and
  \<^verbatim>\<open>src/unnamed/part_001\<close>. Each is embedded below as a function from the inputs of one
  request (the environment value, the query, the behaviour of the upstream call and of
  the XML parser) to what the request produced: the console lines, the URLs requested
  and the response sent, or the exception that left the handler.

  A JavaScript string is a sequence of UTF-16 code units, which is what \<^verbatim>\<open>length\<close>
  and \<^verbatim>\<open>substring\<close> count. The Korean literals of the source are written as their code
  units.
\<close>

type_synonym jstring = "16 word list"

definition u16 :: "string \<Rightarrow> jstring" where
  "u16 s = map (\<lambda>c. of_nat (of_char c)) s"

text \<open>
  The values that reach the handlers: query values from the framework's query parser
  (absent, a string, an array, a nested object), the trees built by the XML parser
  (strings, objects, arrays, \<^verbatim>\<open>null\<close> for blank input), a response body delivered by
  the HTTP client (a string, or the object or array it decoded from JSON), and the
  built-in functions reachable through \<^verbatim>\<open>Object.prototype\<close>. Numbers and booleans
  reach none of the expressions modelled here as values of this type.
\<close>

datatype js =
    JUndefined
  | JNull
  | JStr jstring
  | JArr "js list"
  | JObj "(jstring \<times> js) list"
  | JFun jstring

fun truthy :: "js \<Rightarrow> bool" where
  "truthy JUndefined = False"
| "truthy JNull = False"
| "truthy (JStr s) = (s \<noteq> [])"
| "truthy (JArr xs) = True"
| "truthy (JObj kvs) = True"
| "truthy (JFun name) = True"

definition js_or :: "js \<Rightarrow> js \<Rightarrow> js" where
  \<comment> \<open>\<^verbatim>\<open>a || b\<close>\<close>
  "js_or a b = (if truthy a then a else b)"

fun isArray :: "js \<Rightarrow> bool" where
  "isArray (JArr xs) = True"
| "isArray v = False"

fun join :: "jstring \<Rightarrow> jstring list \<Rightarrow> jstring" where
  "join sep [] = []"
| "join sep [x] = x"
| "join sep (x # y # ys) = x @ sep @ join sep (y # ys)"

text \<open>
  \<^verbatim>\<open>ToString\<close>, as a template literal and a property key apply it. An array joins its
  elements with commas, \<^verbatim>\<open>null\<close> and \<^verbatim>\<open>undefined\<close> elements giving the empty string;
  a plain object gives \<^verbatim>\<open>[object Object]\<close>; a built-in function gives the engine's
  \<^verbatim>\<open>function name() { [native code] }\<close>. Objects that carry a \<^verbatim>\<open>toString\<close> or
  \<^verbatim>\<open>valueOf\<close> key of their own are outside this model.
\<close>

fun js_to_string :: "js \<Rightarrow> jstring" where
  "js_to_string JUndefined = u16 ''undefined''"
| "js_to_string JNull = u16 ''null''"
| "js_to_string (JStr s) = s"
| "js_to_string (JArr xs) =
     join (u16 '','')
       (map (\<lambda>x. if x = JUndefined \<or> x = JNull then [] else js_to_string x) xs)"
| "js_to_string (JObj kvs) = u16 ''[object Object]''"
| "js_to_string (JFun name) = u16 ''function '' @ name @ u16 ''() { [native code] }''"

text \<open>
  Reading a property of an object literal looks at the object's own keys and then at
  \<^verbatim>\<open>Object.prototype\<close>, whose properties are the built-in functions below and the
  accessor \<^verbatim>\<open>__proto__\<close>, which yields the prototype object itself.
\<close>

definition Object_prototype :: "(jstring \<times> js) list" where
  "Object_prototype =
    [(u16 ''constructor'', JFun (u16 ''Object'')),
     (u16 ''__defineGetter__'', JFun (u16 ''__defineGetter__'')),
     (u16 ''__defineSetter__'', JFun (u16 ''__defineSetter__'')),
     (u16 ''hasOwnProperty'', JFun (u16 ''hasOwnProperty'')),
     (u16 ''__lookupGetter__'', JFun (u16 ''__lookupGetter__'')),
     (u16 ''__lookupSetter__'', JFun (u16 ''__lookupSetter__'')),
     (u16 ''isPrototypeOf'', JFun (u16 ''isPrototypeOf'')),
     (u16 ''propertyIsEnumerable'', JFun (u16 ''propertyIsEnumerable'')),
     (u16 ''toString'', JFun (u16 ''toString'')),
     (u16 ''valueOf'', JFun (u16 ''valueOf'')),
     (u16 ''toLocaleString'', JFun (u16 ''toLocaleString'')),
     (u16 ''__proto__'', JObj [])]"

definition get_prop :: "(jstring \<times> js) list \<Rightarrow> jstring \<Rightarrow> js" where
  "get_prop own k =
     (case map_of own k of
        Some v \<Rightarrow> v
      | None \<Rightarrow> (case map_of Object_prototype k of Some v \<Rightarrow> v | None \<Rightarrow> JUndefined))"

text \<open>
  \<^verbatim>\<open>a?.k\<close> for the keys the handlers read (\<^verbatim>\<open>response\<close>, \<^verbatim>\<open>body\<close>, \<^verbatim>\<open>items\<close>,
  \<^verbatim>\<open>item\<close>, \<^verbatim>\<open>header\<close>, \<^verbatim>\<open>resultMsg\<close>): none of them is a property of a string, an
  array or a function, so only an object can hold one.
\<close>

fun opt_get :: "js \<Rightarrow> jstring \<Rightarrow> js" where
  "opt_get (JObj kvs) k = get_prop kvs k"
| "opt_get v k = JUndefined"

definition items_of :: "js \<Rightarrow> js" where
  \<comment> \<open>\<^verbatim>\<open>jsonData?.response?.body?.items?.item\<close>\<close>
  "items_of jsonData =
     opt_get (opt_get (opt_get (opt_get jsonData (u16 ''response'')) (u16 ''body''))
       (u16 ''items'')) (u16 ''item'')"

definition resultMsg_of :: "js \<Rightarrow> js" where
  \<comment> \<open>\<^verbatim>\<open>errorJson?.response?.header?.resultMsg\<close>\<close>
  "resultMsg_of errorJson =
     opt_get (opt_get (opt_get errorJson (u16 ''response'')) (u16 ''header''))
       (u16 ''resultMsg'')"

section \<open>Requests, the upstream call, console lines and outcomes\<close>

text \<open>\<^verbatim>\<open>req.query\<close>: a parameter that was not sent is \<^verbatim>\<open>undefined\<close>.\<close>

record query =
  Q0 :: js
  Q1 :: js
  DG :: js

text \<open>
  \<^verbatim>\<open>axios.get\<close> resolves to a response or rejects with an error that carries the
  upstream response when there was one, and the configuration of the request, whose
  \<^verbatim>\<open>url\<close> is the URL that was requested. Errors raised by the parser and by the engine
  have a message, no response and no configuration.
\<close>

datatype http_response = Response (status: nat) (data: js)

datatype js_error =
  Error (message: jstring) (response: "http_response option") (config_url: "jstring option")

type_synonym http_client = "jstring \<Rightarrow> js_error + http_response"

text \<open>
  \<^verbatim>\<open>parser.parseStringPromise\<close> of the XML library, a parameter of the model: the
  tree, or the message of the error it rejects with.
\<close>

type_synonym xml_parser = "jstring \<Rightarrow> jstring + js"

datatype level = Log | Err

datatype logarg = LVal js | LNum nat | LError js_error

type_synonym entry = "level \<times> logarg list"

definition say :: "level \<Rightarrow> string \<Rightarrow> logarg list \<Rightarrow> entry" where
  \<comment> \<open>\<^verbatim>\<open>console.log(label, ...)\<close> and \<^verbatim>\<open>console.error(label, ...)\<close>\<close>
  "say lv label args = (lv, LVal (JStr (u16 label)) # args)"

datatype outcome = Responded nat js | Uncaught js_error

record result =
  logs :: "entry list"
  calls :: "jstring list"
  outcome :: outcome

definition json_message :: "jstring \<Rightarrow> js" where
  \<comment> \<open>\<^verbatim>\<open>{ message: m }\<close>\<close>
  "json_message m = JObj [(u16 ''message'', JStr m)]"

text \<open>
  \<^verbatim>\<open>v.substring(0, 500)\<close> is defined on strings only; on any other value the engine
  throws a \<^verbatim>\<open>TypeError\<close>, whose message names the expression.
\<close>

definition axios_error :: "jstring \<Rightarrow> js_error \<Rightarrow> js_error" where
  \<comment> \<open>the error as the client rejects with it: its \<^verbatim>\<open>config.url\<close> is the URL of the call\<close>
  "axios_error url error = Error (message error) (response error) (Some url)"

definition substring_TypeError :: "string \<Rightarrow> js \<Rightarrow> js_error" where
  "substring_TypeError expr v =
     (case v of
        JUndefined \<Rightarrow>
          Error (u16 ''Cannot read properties of undefined (reading '' @ [0x27] @
                 u16 ''substring'' @ [0x27] @ u16 '')'') None None
      | JNull \<Rightarrow>
          Error (u16 ''Cannot read properties of null (reading '' @ [0x27] @
                 u16 ''substring'' @ [0x27] @ u16 '')'') None None
      | _ \<Rightarrow> Error (u16 expr @ u16 ''.substring is not a function'') None None)"

section \<open>The literals of the source\<close>

definition msg_config :: jstring where
  \<comment> \<open>server configuration error: the API key is missing\<close>
  "msg_config =
    [0xC11C, 0xBC84, 0x20, 0xC124, 0xC815, 0x20, 0xC624, 0xB958, 0x3A, 0x20, 0x41, 0x50,
     0x49, 0x20, 0xD0A4, 0xAC00, 0x20, 0xB204, 0xB77D, 0xB418, 0xC5C8, 0xC2B5, 0xB2C8,
     0xB2E4, 0x2E]"

definition msg_params :: jstring where
  \<comment> \<open>a required search condition (province, district, weekday) is missing\<close>
  "msg_params =
    [0xD544, 0xC218, 0x20, 0xAC80, 0xC0C9, 0x20, 0xC870, 0xAC74, 0x28, 0xC2DC, 0x2F,
     0xB3C4, 0x2C, 0x20, 0xC2DC, 0x2F, 0xAD70, 0x2F, 0xAD6C, 0x2C, 0x20, 0xC694, 0xC77C,
     0x29, 0xC774, 0x20, 0xB204, 0xB77D, 0xB418, 0xC5C8, 0xC2B5, 0xB2C8, 0xB2E4, 0x2E]"

definition msg_prefix :: jstring where
  \<comment> \<open>the text before the placeholder of the template: API response error, colon, space\<close>
  "msg_prefix = [0x41, 0x50, 0x49, 0x20, 0xC751, 0xB2F5, 0x20, 0xC624, 0xB958, 0x3A, 0x20]"

definition msg_unknown :: jstring where
  \<comment> \<open>unknown API response error\<close>
  "msg_unknown =
    [0xC54C, 0x20, 0xC218, 0x20, 0xC5C6, 0xB294, 0x20, 0x41, 0x50, 0x49, 0x20, 0xC751,
     0xB2F5, 0x20, 0xC624, 0xB958]"

definition msg_bad_format :: jstring where
  \<comment> \<open>error while processing data: malformed API response\<close>
  "msg_bad_format =
    [0xB370, 0xC774, 0xD130, 0x20, 0xCC98, 0xB9AC, 0x20, 0xC911, 0x20, 0xC624, 0xB958,
     0x20, 0xBC1C, 0xC0DD, 0x3A, 0x20, 0xC798, 0xBABB, 0xB41C, 0x20, 0x41, 0x50, 0x49,
     0x20, 0xC751, 0xB2F5, 0x20, 0xD615, 0xC2DD]"

definition msg_bad_format_or_network :: jstring where
  \<comment> \<open>the same, followed by: or a network problem\<close>
  "msg_bad_format_or_network =
     msg_bad_format @
     [0x20, 0xB610, 0xB294, 0x20, 0xB124, 0xD2B8, 0xC6CC, 0xD06C, 0x20, 0xBB38, 0xC81C]"

definition msg_failed :: jstring where
  \<comment> \<open>failed to load the data\<close>
  "msg_failed =
    [0xB370, 0xC774, 0xD130, 0xB97C, 0x20, 0xBD88, 0xB7EC, 0xC624, 0xB294, 0x20, 0xB370,
     0x20, 0xC2E4, 0xD328, 0xD588, 0xC2B5, 0xB2C8, 0xB2E4, 0x2E]"

definition label_call_or_parse :: jstring where
  \<comment> \<open>the label of the first console line of every catch block\<close>
  "label_call_or_parse =
    [0x41, 0x50, 0x49, 0x20, 0xD638, 0xCD9C, 0x20, 0xB610, 0xB294, 0x20, 0xD30C, 0xC2F1,
     0x20, 0xC624, 0xB958, 0x3A]"

definition say_call_or_parse :: "js_error \<Rightarrow> entry" where
  \<comment> \<open>\<^verbatim>\<open>console.error(label, error.message)\<close>\<close>
  "say_call_or_parse error = (Err, [LVal (JStr label_call_or_parse), LVal (JStr (message error))])"

definition config_error :: result where
  \<comment> \<open>the branch taken when \<^verbatim>\<open>!serviceKey\<close>, the same in the three files\<close>
  "config_error =
     \<lparr>logs = [say Err ''API Key is not set in environment variables.'' []],
      calls = [],
      outcome = Responded 500 (json_message msg_config)\<rparr>"

definition params_error :: result where
  \<comment> \<open>the branch taken when \<^verbatim>\<open>!Q0 || !Q1 || !DG\<close>\<close>
  "params_error =
     \<lparr>logs = [say Err
        ''Missing required query parameters: Q0 (sido), Q1 (sigungu), or DG (day).'' []],
      calls = [],
      outcome = Responded 400 (json_message msg_params)\<rparr>"

text \<open>The URL template of \<^verbatim>\<open>index.js\<close> line 35 and \<^verbatim>\<open>part_001\<close> line 50.\<close>

definition url_template :: "jstring \<Rightarrow> js \<Rightarrow> js \<Rightarrow> js \<Rightarrow> jstring" where
  "url_template k q0 q1 dg =
     u16 ''http://apis.data.go.kr/B552657/ErmctInsttInfoInqireService/getParmacyList?ServiceKey=''
     @ k @ u16 ''&Q0='' @ js_to_string q0 @ u16 ''&Q1='' @ js_to_string q1
     @ u16 ''&DG='' @ js_to_string dg @ u16 ''&pageNo=1&numOfRows=10''"

definition debug_lines :: "jstring \<Rightarrow> js \<Rightarrow> js \<Rightarrow> js \<Rightarrow> entry list" where
  \<comment> \<open>the five console lines that open the try block (\<^verbatim>\<open>index.js\<close> lines 39 to 43)\<close>
  "debug_lines serviceKey q0 q1 dg =
     [say Log ''Constructed API URL (without key):''
        [LVal (JStr (url_template (u16 ''***'') q0 q1 dg))],
      say Log ''API Key length:'' [LNum (length serviceKey)],
      say Log ''Q0 (sido):'' [LVal q0],
      say Log ''Q1 (sigungu):'' [LVal q1],
      say Log ''DG (day):'' [LVal dg]]"

section \<open>The code the three files share\<close>

text \<open>
  The call and the parse (\<^verbatim>\<open>index.js\<close> lines 46 to 58, \<^verbatim>\<open>part_000\<close> lines 48 to 62,
  \<^verbatim>\<open>part_001\<close> lines 63 to 75): the console lines written, and the value of
  \<^verbatim>\<open>items\<close> or the error thrown inside the try block.
\<close>

definition fetch_items ::
  "http_client \<Rightarrow> xml_parser \<Rightarrow> jstring \<Rightarrow> entry list \<times> (js_error + js)" where
  "fetch_items axios_get parseString apiUrl =
     (case axios_get apiUrl of
        Inl error \<Rightarrow> ([], Inl (axios_error apiUrl error))
      | Inr resp \<Rightarrow>
          (case data resp of
             JStr xmlData \<Rightarrow>
               (let l = [say Log ''Received XML data (first 500 chars):''
                           [LVal (JStr (take 500 xmlData))]]
                in case parseString xmlData of
                     Inl m \<Rightarrow> (l, Inl (Error m None None))
                   | Inr jsonData \<Rightarrow> (l, Inr (items_of jsonData)))
           | v \<Rightarrow> ([], Inl (substring_TypeError ''xmlData'' v))))"

definition reply_items :: "js \<Rightarrow> outcome" where
  \<comment> \<open>\<^verbatim>\<open>index.js\<close> lines 60 to 66, \<^verbatim>\<open>part_001\<close> lines 77 to 83\<close>
  "reply_items items =
     (if truthy items
      then Responded 200 (if isArray items then items else JArr [items])
      else Responded 200 (JArr []))"

section \<open>\<^verbatim>\<open>src/pharmacy-backend-function/index.js\<close>\<close>

definition getPharmacyData_catch :: "xml_parser \<Rightarrow> js_error \<Rightarrow> entry list \<times> outcome" where
  \<comment> \<open>lines 68 to 85\<close>
  "getPharmacyData_catch parseString error =
     (let l = [say_call_or_parse error] in
      case response error of
        None \<Rightarrow> (l, Responded 500 (json_message msg_failed))
      | Some r \<Rightarrow>
          if \<not> truthy (data r) then (l, Responded 500 (json_message msg_failed))
          else
            (case parseString (js_to_string (data r)) of
               Inr errorJson \<Rightarrow>
                 (let errorMessage = js_or (resultMsg_of errorJson) (JStr msg_unknown)
                  in (l @ [say Err ''Detailed API Error Response:'' [LVal errorMessage]],
                      Responded (status r)
                        (json_message (msg_prefix @ js_to_string errorMessage))))
             | Inl m \<Rightarrow>
                 (l @ [say Err ''Error parsing API error response:'' [LVal (JStr m)]],
                  Responded 500 (json_message msg_bad_format))))"

definition getPharmacyData ::
  "http_client \<Rightarrow> xml_parser \<Rightarrow> jstring option \<Rightarrow> query \<Rightarrow> result" where
  "getPharmacyData axios_get parseString env q =
     (case env of
        None \<Rightarrow> config_error
      | Some serviceKey \<Rightarrow>
          if serviceKey = [] then config_error
          else if \<not> truthy (Q0 q) \<or> \<not> truthy (Q1 q) \<or> \<not> truthy (DG q) then params_error
          else
            (let apiUrl = url_template serviceKey (Q0 q) (Q1 q) (DG q);
                 l1 = debug_lines serviceKey (Q0 q) (Q1 q) (DG q)
             in case fetch_items axios_get parseString apiUrl of
                  (l2, Inr items) \<Rightarrow>
                    \<lparr>logs = l1 @ l2, calls = [apiUrl], outcome = reply_items items\<rparr>
                | (l2, Inl error) \<Rightarrow>
                    (case getPharmacyData_catch parseString error of
                       (l3, out) \<Rightarrow>
                         \<lparr>logs = l1 @ l2 @ l3, calls = [apiUrl], outcome = out\<rparr>)))"

section \<open>\<^verbatim>\<open>src/unnamed/part_001\<close>\<close>

definition dayMap :: "(jstring \<times> js) list" where
  \<comment> \<open>lines 35 to 44: the seven weekday labels and the holiday label\<close>
  "dayMap =
    [([0xC6D4], JStr (u16 ''1'')),
     ([0xD654], JStr (u16 ''2'')),
     ([0xC218], JStr (u16 ''3'')),
     ([0xBAA9], JStr (u16 ''4'')),
     ([0xAE08], JStr (u16 ''5'')),
     ([0xD1A0], JStr (u16 ''6'')),
     ([0xC77C], JStr (u16 ''7'')),
     ([0xACF5, 0xD734, 0xC77C], JStr (u16 ''8''))]"

definition convert_DG :: "js \<Rightarrow> js" where
  \<comment> \<open>line 47: \<^verbatim>\<open>DG = dayMap[DG] || DG\<close>; the key of the lookup is \<^verbatim>\<open>ToString(DG)\<close>\<close>
  "convert_DG dg = js_or (get_prop dayMap (js_to_string dg)) dg"

definition getPharmacyData_part_001_catch ::
  "xml_parser \<Rightarrow> js_error \<Rightarrow> entry list \<times> outcome" where
  \<comment> \<open>lines 85 to 109; line 88 prints the whole error object, request configuration
      included; a \<^verbatim>\<open>substring\<close> that throws at line 94 is caught at line 101, one
      that throws at line 103 leaves the handler\<close>
  "getPharmacyData_part_001_catch parseString error =
     (let l = [say_call_or_parse error, say Err ''Full Error Object:'' [LError error]] in
      case response error of
        None \<Rightarrow> (l, Responded 500 (json_message msg_failed))
      | Some r \<Rightarrow>
          if \<not> truthy (data r) then (l, Responded 500 (json_message msg_failed))
          else
            (case data r of
               JStr d \<Rightarrow>
                 (let l' = l @ [say Err ''Error Response XML:'' [LVal (JStr (take 500 d))]]
                  in case parseString d of
                       Inr errorJson \<Rightarrow>
                         (let errorMessage = js_or (resultMsg_of errorJson) (JStr msg_unknown)
                          in (l' @ [say Err ''Detailed API Error Response:''
                                      [LVal errorMessage]],
                              Responded (status r)
                                (json_message (msg_prefix @ js_to_string errorMessage))))
                     | Inl m \<Rightarrow>
                         (l' @ [say Err
                                  ''Error parsing API error response (likely non-XML):''
                                  [LVal (JStr m)],
                                say Err ''Raw error response data (first 500 chars):''
                                  [LVal (JStr (take 500 d))]],
                          Responded 500 (json_message msg_bad_format_or_network)))
             | v \<Rightarrow>
                 (let parseError = substring_TypeError ''error.response.data'' v
                  in (l @ [say Err
                             ''Error parsing API error response (likely non-XML):''
                             [LVal (JStr (message parseError))]],
                      Uncaught (substring_TypeError ''error.response.data'' v)))))"

definition getPharmacyData_part_001 ::
  "http_client \<Rightarrow> xml_parser \<Rightarrow> jstring option \<Rightarrow> query \<Rightarrow> result" where
  "getPharmacyData_part_001 axios_get parseString env q =
     (case env of
        None \<Rightarrow> config_error
      | Some serviceKey \<Rightarrow>
          if serviceKey = [] then config_error
          else if \<not> truthy (Q0 q) \<or> \<not> truthy (Q1 q) \<or> \<not> truthy (DG q) then params_error
          else
            (let originalDG = DG q;
                 dg = convert_DG (DG q);
                 apiUrl = url_template serviceKey (Q0 q) (Q1 q) dg;
                 l1 = [say Log ''Original DG from request:'' [LVal originalDG],
                       say Log ''Converted DG for API call:'' [LVal dg]]
                      @ debug_lines serviceKey (Q0 q) (Q1 q) dg
             in case fetch_items axios_get parseString apiUrl of
                  (l2, Inr items) \<Rightarrow>
                    \<lparr>logs = l1 @ l2, calls = [apiUrl], outcome = reply_items items\<rparr>
                | (l2, Inl error) \<Rightarrow>
                    (case getPharmacyData_part_001_catch parseString error of
                       (l3, out) \<Rightarrow>
                         \<lparr>logs = l1 @ l2 @ l3, calls = [apiUrl], outcome = out\<rparr>)))"

section \<open>\<^verbatim>\<open>src/unnamed/part_000\<close>\<close>

text \<open>
  \<^verbatim>\<open>new URLSearchParams({...}).toString()\<close>: each name and value is converted to a
  sequence of code points (a surrogate without its partner becomes U+FFFD), encoded in
  UTF-8, and every byte other than an ASCII letter, a digit, \<^verbatim>\<open>*\<close>, \<^verbatim>\<open>-\<close>, \<^verbatim>\<open>.\<close> and
  \<^verbatim>\<open>_\<close> is written as \<^verbatim>\<open>%XX\<close>, a space as \<^verbatim>\<open>+\<close>; the pairs are joined by \<^verbatim>\<open>&\<close>.
\<close>

definition is_high :: "16 word \<Rightarrow> bool" where
  "is_high h = (0xD800 \<le> h \<and> h \<le> 0xDBFF)"

definition is_low :: "16 word \<Rightarrow> bool" where
  "is_low l = (0xDC00 \<le> l \<and> l \<le> 0xDFFF)"

definition scalar :: "16 word \<Rightarrow> nat" where
  "scalar h = (if is_high h \<or> is_low h then 0xFFFD else unat h)"

fun code_points :: "jstring \<Rightarrow> nat list" where
  "code_points [] = []"
| "code_points [h] = [scalar h]"
| "code_points (h # l # rest) =
     (if is_high h \<and> is_low l
      then (0x10000 + (unat h - 0xD800) * 0x400 + (unat l - 0xDC00)) # code_points rest
      else scalar h # code_points (l # rest))"

definition utf8 :: "nat \<Rightarrow> nat list" where
  "utf8 c =
     (if c < 0x80 then [c]
      else if c < 0x800 then [0xC0 + c div 0x40, 0x80 + c mod 0x40]
      else if c < 0x10000
        then [0xE0 + c div 0x1000, 0x80 + (c div 0x40) mod 0x40, 0x80 + c mod 0x40]
      else [0xF0 + c div 0x40000, 0x80 + (c div 0x1000) mod 0x40,
            0x80 + (c div 0x40) mod 0x40, 0x80 + c mod 0x40])"

definition hex_digit :: "nat \<Rightarrow> 16 word" where
  "hex_digit n = (if n < 10 then of_nat (0x30 + n) else of_nat (0x41 + (n - 10)))"

definition form_byte :: "nat \<Rightarrow> jstring" where
  "form_byte b =
     (if (0x30 \<le> b \<and> b \<le> 0x39) \<or> (0x41 \<le> b \<and> b \<le> 0x5A) \<or> (0x61 \<le> b \<and> b \<le> 0x7A)
         \<or> b = 0x2A \<or> b = 0x2D \<or> b = 0x2E \<or> b = 0x5F
      then [of_nat b]
      else if b = 0x20 then [0x2B]
      else [0x25, hex_digit (b div 16), hex_digit (b mod 16)])"

definition form_urlencode :: "jstring \<Rightarrow> jstring" where
  "form_urlencode s = concat (map form_byte (concat (map utf8 (code_points s))))"

definition URLSearchParams_toString :: "(string \<times> js) list \<Rightarrow> jstring" where
  "URLSearchParams_toString kvs =
     join (u16 ''&'')
       (map (\<lambda>(k, v). form_urlencode (u16 k) @ u16 ''='' @ form_urlencode (js_to_string v))
          kvs)"

definition baseUrl :: jstring where
  \<comment> \<open>line 23\<close>
  "baseUrl =
     u16 ''http://apis.data.go.kr/B552657/ErmctInsttInfoInqireService/getParmacyListInfoInqire''"

definition default_Q0 :: jstring where
  \<comment> \<open>line 28: the name of the capital\<close>
  "default_Q0 = [0xC11C, 0xC6B8, 0xD2B9, 0xBCC4, 0xC2DC]"

definition default_Q1 :: jstring where
  \<comment> \<open>line 29: the name of one of its districts\<close>
  "default_Q1 = [0xAC15, 0xB0A8, 0xAD6C]"

definition default_DG :: jstring where
  \<comment> \<open>line 30: the label of Monday\<close>
  "default_DG = [0xC6D4]"

definition apiUrl_part_000 :: "jstring \<Rightarrow> query \<Rightarrow> jstring" where
  \<comment> \<open>lines 28 to 43\<close>
  "apiUrl_part_000 serviceKey q =
     baseUrl @ u16 ''?'' @
     URLSearchParams_toString
       [(''serviceKey'', JStr serviceKey),
        (''Q0'', js_or (Q0 q) (JStr default_Q0)),
        (''Q1'', js_or (Q1 q) (JStr default_Q1)),
        (''DG'', js_or (DG q) (JStr default_DG))]"

definition pharmacyList :: "js \<Rightarrow> js" where
  \<comment> \<open>lines 64 to 69\<close>
  "pharmacyList items =
     (if truthy items then (if isArray items then items else JArr [items]) else JArr [])"

definition getPharmacyData_part_000_catch :: "js_error \<Rightarrow> entry list \<times> outcome" where
  \<comment> \<open>lines 75 to 88\<close>
  "getPharmacyData_part_000_catch error =
     (let errorDetail =
            (case response error of
               Some r \<Rightarrow> data r
             | None \<Rightarrow> JStr (u16 ''No response data from external API''))
      in ([say_call_or_parse error],
          Responded 500
            (JObj [(u16 ''message'', JStr msg_failed),
                   (u16 ''error'', JStr (message error)),
                   (u16 ''detail'', errorDetail)])))"

definition getPharmacyData_part_000 ::
  "http_client \<Rightarrow> xml_parser \<Rightarrow> jstring option \<Rightarrow> query \<Rightarrow> result" where
  "getPharmacyData_part_000 axios_get parseString env q =
     (case env of
        None \<Rightarrow> config_error
      | Some serviceKey \<Rightarrow>
          if serviceKey = [] then config_error
          else
            (let apiUrl = apiUrl_part_000 serviceKey q;
                 l1 = [(Log, [LVal (JStr (u16 ''Calling API: '' @ apiUrl))])]
             in case fetch_items axios_get parseString apiUrl of
                  (l2, Inr items) \<Rightarrow>
                    \<lparr>logs = l1 @ l2, calls = [apiUrl],
                     outcome = Responded 200 (pharmacyList items)\<rparr>
                | (l2, Inl error) \<Rightarrow>
                    (case getPharmacyData_part_000_catch error of
                       (l3, out) \<Rightarrow>
                         \<lparr>logs = l1 @ l2 @ l3, calls = [apiUrl], outcome = out\<rparr>)))"

text \<open>A string occurs in another when it is a prefix of one of its suffixes.\<close>

fun occurs_in :: "jstring \<Rightarrow> jstring \<Rightarrow> bool" where
  "occurs_in xs [] = (xs = [])"
| "occurs_in xs (y # ys) = (take (length xs) (y # ys) = xs \<or> occurs_in xs ys)"

section \<open>Sample inputs\<close>

definition wrap_items :: "js \<Rightarrow> js" where
  "wrap_items v =
     JObj [(u16 ''response'', JObj [(u16 ''body'', JObj [(u16 ''items'', JObj [(u16 ''item'', v)])])])]"

definition wrap_resultMsg :: "js \<Rightarrow> js" where
  "wrap_resultMsg v =
     JObj [(u16 ''response'', JObj [(u16 ''header'', JObj [(u16 ''resultMsg'', v)])])]"

definition upstream_ok :: http_client where
  "upstream_ok u = Inr (Response 200 (JStr (u16 ''<response/>'')))"

definition upstream_down :: http_client where
  "upstream_down u = Inl (Error (u16 ''connect ECONNREFUSED'') None (Some u))"

definition record_A :: js where
  "record_A = JObj [(u16 ''dutyName'', JStr (u16 ''A''))]"

definition record_B :: js where
  "record_B = JObj [(u16 ''dutyName'', JStr (u16 ''B''))]"

definition parse_to :: "js \<Rightarrow> xml_parser" where
  "parse_to tree s = Inr tree"

definition parse_fails :: xml_parser where
  "parse_fails s = Inl (u16 ''Non-whitespace before first tag.'')"

definition sample_query :: query where
  "sample_query = \<lparr>Q0 = JStr default_Q0, Q1 = JStr default_Q1, DG = JStr default_DG\<rparr>"

definition upstream_rejects :: http_client where
  "upstream_rejects u =
     Inl (Error (u16 ''Request failed with status code 404'')
            (Some (Response 404 (JStr (u16 ''<response/>'')))) (Some u))"

definition upstream_rejects_json :: http_client where
  "upstream_rejects_json u =
     Inl (Error (u16 ''Request failed with status code 500'')
            (Some (Response 500 (JObj [(u16 ''error'', JStr (u16 ''x''))]))) (Some u))"

definition ascii_query :: query where
  "ascii_query = \<lparr>Q0 = JStr (u16 ''a''), Q1 = JStr (u16 ''b''), DG = JStr (u16 ''1'')\<rparr>"

definition no_Q0_query :: query where
  "no_Q0_query = \<lparr>Q0 = JUndefined, Q1 = JStr (u16 ''b''), DG = JStr (u16 ''1'')\<rparr>"

definition constructor_query :: query where
  "constructor_query =
     \<lparr>Q0 = JStr (u16 ''a''), Q1 = JStr (u16 ''b''), DG = JStr (u16 ''constructor'')\<rparr>"

definition key_error_text :: jstring where
  "key_error_text = u16 ''SERVICE KEY IS NOT REGISTERED ERROR.''"

section \<open>Auxiliary facts\<close>

lemma u16_eq_Nil: "(u16 s = []) = (s = [])"
  by (simp add: u16_def)

lemma items_of_wrap_items: "items_of (wrap_items v) = v"
  by (simp add: items_of_def wrap_items_def get_prop_def)

lemma resultMsg_of_wrap: "resultMsg_of (wrap_resultMsg v) = v"
  by (simp add: resultMsg_of_def wrap_resultMsg_def get_prop_def)

lemma items_of_no_body: "items_of (JObj [(u16 ''response'', JStr [])]) = JUndefined"
  by (simp add: items_of_def get_prop_def)

lemma sample_query_truthy:
  "truthy (Q0 sample_query)" "truthy (Q1 sample_query)" "truthy (DG sample_query)"
  by (simp_all add: sample_query_def default_Q0_def default_Q1_def default_DG_def)

lemma no_key_index:
  "env = None \<or> env = Some [] \<Longrightarrow> getPharmacyData axios_get parseString env q = config_error"
  by (auto simp: getPharmacyData_def)

lemma no_key_part_001:
  "env = None \<or> env = Some [] \<Longrightarrow> getPharmacyData_part_001 axios_get parseString env q = config_error"
  by (auto simp: getPharmacyData_part_001_def)

lemma no_key_part_000:
  "env = None \<or> env = Some [] \<Longrightarrow> getPharmacyData_part_000 axios_get parseString env q = config_error"
  by (auto simp: getPharmacyData_part_000_def)

lemma convert_DG_constructor: "convert_DG (JStr (u16 ''constructor'')) = JFun (u16 ''Object'')"
  by (simp add: convert_DG_def get_prop_def dayMap_def Object_prototype_def js_or_def u16_def)

text \<open>
  What \<^verbatim>\<open>dayMap\<close> does to the eight labels, and to a string that is neither a label
  nor the name of a property of \<^verbatim>\<open>Object.prototype\<close>.
\<close>

lemma dayMap_codes:
  "convert_DG (JStr [0xC6D4]) = JStr (u16 ''1'')"
  "convert_DG (JStr [0xD654]) = JStr (u16 ''2'')"
  "convert_DG (JStr [0xC218]) = JStr (u16 ''3'')"
  "convert_DG (JStr [0xBAA9]) = JStr (u16 ''4'')"
  "convert_DG (JStr [0xAE08]) = JStr (u16 ''5'')"
  "convert_DG (JStr [0xD1A0]) = JStr (u16 ''6'')"
  "convert_DG (JStr [0xC77C]) = JStr (u16 ''7'')"
  "convert_DG (JStr [0xACF5, 0xD734, 0xC77C]) = JStr (u16 ''8'')"
  by (simp_all add: convert_DG_def get_prop_def dayMap_def js_or_def u16_def)

lemma convert_DG_other:
  assumes "map_of dayMap s = None" and "map_of Object_prototype s = None"
  shows "convert_DG (JStr s) = JStr s"
  using assms by (simp add: convert_DG_def get_prop_def js_or_def)

text \<open>
  For the record, what holds of an error body that does not parse: \<^verbatim>\<open>index.js\<close>
  answers 500 with its fixed message for every truthy body, and \<^verbatim>\<open>part_001\<close> does so
  with its own fixed message when the body is a string.
\<close>

lemma malformed_error_body:
  assumes "env = Some serviceKey" and "serviceKey \<noteq> []"
    and "truthy (Q0 q)" and "truthy (Q1 q)" and "truthy (DG q)"
    and "axios_get (url_template serviceKey (Q0 q) (Q1 q) (DG q))
           = Inl (Error m (Some (Response st body)) c)"
    and "truthy body" and "parseString (js_to_string body) = Inl pm"
  shows "outcome (getPharmacyData axios_get parseString env q)
           = Responded 500 (json_message msg_bad_format)"
  using assms
  by (simp add: getPharmacyData_def Let_def fetch_items_def axios_error_def getPharmacyData_catch_def)

lemma malformed_error_body_part_001:
  assumes "env = Some serviceKey" and "serviceKey \<noteq> []"
    and "truthy (Q0 q)" and "truthy (Q1 q)" and "truthy (DG q)"
    and "axios_get (url_template serviceKey (Q0 q) (Q1 q) (convert_DG (DG q)))
           = Inl (Error m (Some (Response st (JStr d))) c)"
    and "d \<noteq> []" and "parseString d = Inl pm"
  shows "outcome (getPharmacyData_part_001 axios_get parseString env q)
           = Responded 500 (json_message msg_bad_format_or_network)"
  using assms
  by (simp add: getPharmacyData_part_001_def Let_def fetch_items_def axios_error_def
      getPharmacyData_part_001_catch_def)

text \<open>
  When the upstream call fails, line 88 of \<^verbatim>\<open>part_001\<close> prints the error object, and
  with it the URL that was requested.
\<close>

lemma part_001_catch_lines:
  "\<exists>rest. fst (getPharmacyData_part_001_catch parseString error)
     = say_call_or_parse error # say Err ''Full Error Object:'' [LError error] # rest"
  by (simp add: getPharmacyData_part_001_catch_def Let_def
      split: option.splits js.splits sum.splits)

lemma part_001_prints_error_object:
  assumes "env = Some serviceKey" and "serviceKey \<noteq> []"
    and "truthy (Q0 q)" and "truthy (Q1 q)" and "truthy (DG q)"
    and "axios_get (url_template serviceKey (Q0 q) (Q1 q) (convert_DG (DG q))) = Inl (Error m r c)"
  shows "logs (getPharmacyData_part_001 axios_get parseString env q) ! 8
           = say Err ''Full Error Object:''
               [LError (Error m r
                  (Some (url_template serviceKey (Q0 q) (Q1 q) (convert_DG (DG q)))))]"
proof -
  let ?u = "url_template serviceKey (Q0 q) (Q1 q) (convert_DG (DG q))"
  let ?e = "Error m r (Some ?u)"
  obtain rest where r: "fst (getPharmacyData_part_001_catch parseString ?e)
      = say_call_or_parse ?e # say Err ''Full Error Object:'' [LError ?e] # rest"
    using part_001_catch_lines by blast
  obtain l3 out where c: "getPharmacyData_part_001_catch parseString ?e = (l3, out)"
    by (cases "getPharmacyData_part_001_catch parseString ?e")
  have l3: "l3 = say_call_or_parse ?e # say Err ''Full Error Object:'' [LError ?e] # rest"
    using r c by simp
  have "logs (getPharmacyData_part_001 axios_get parseString env q)
          = [say Log ''Original DG from request:'' [LVal (DG q)],
             say Log ''Converted DG for API call:'' [LVal (convert_DG (DG q))]]
            @ debug_lines serviceKey (Q0 q) (Q1 q) (convert_DG (DG q)) @ l3"
    using assms c
    by (simp add: getPharmacyData_part_001_def Let_def fetch_items_def axios_error_def)
  then show ?thesis
    by (simp add: debug_lines_def l3)
qed

section \<open>The properties\<close>

text \<open>
  C1, as stated for every present value, fails: for an empty \<^verbatim>\<open>item\<close> element the
  value at \<^verbatim>\<open>response.body.items.item\<close> is the empty string, which is present and is
  not an array, and each of the three handlers answers 200 with the empty array, not
  with the array of that one value.
\<close>

theorem C1_counterexample:
  "items_of (wrap_items (JStr [])) = JStr []
   \<and> \<not> isArray (JStr [])
   \<and> outcome (getPharmacyData upstream_ok (parse_to (wrap_items (JStr []))) (Some (u16 ''KEY''))
        ascii_query) = Responded 200 (JArr [])
   \<and> outcome (getPharmacyData_part_001 upstream_ok (parse_to (wrap_items (JStr [])))
        (Some (u16 ''KEY'')) ascii_query) = Responded 200 (JArr [])
   \<and> outcome (getPharmacyData_part_000 upstream_ok (parse_to (wrap_items (JStr [])))
        (Some (u16 ''KEY'')) ascii_query) = Responded 200 (JArr [])
   \<and> Responded 200 (JArr []) \<noteq> Responded 200 (JArr [JStr []])"
  by (simp add: items_of_wrap_items getPharmacyData_def getPharmacyData_part_001_def
      getPharmacyData_part_000_def ascii_query_def u16_eq_Nil Let_def fetch_items_def
      upstream_ok_def parse_to_def reply_items_def pharmacyList_def)

text \<open>
  C1, amended. When the upstream call succeeds, its body parses, and the value at
  \<^verbatim>\<open>response.body.items.item\<close> is truthy (present, and not the empty string), each of
  the three handlers answers 200 with an array: an array is passed through as it is,
  with its elements in their order, and any other value is wrapped into an array of
  exactly that one element.
\<close>

theorem C1_items_normalised:
  assumes "env = Some serviceKey" and "serviceKey \<noteq> []"
    and "truthy (Q0 q)" and "truthy (Q1 q)" and "truthy (DG q)"
    and "axios_get (url_template serviceKey (Q0 q) (Q1 q) (DG q)) = Inr (Response st (JStr xmlData))"
    and "axios_get (url_template serviceKey (Q0 q) (Q1 q) (convert_DG (DG q)))
           = Inr (Response st (JStr xmlData))"
    and "axios_get (apiUrl_part_000 serviceKey q) = Inr (Response st (JStr xmlData))"
    and "parseString xmlData = Inr jsonData"
    and "items_of jsonData = items" and "truthy items"
  shows "outcome (getPharmacyData axios_get parseString env q)
           = Responded 200 (case items of JArr xs \<Rightarrow> JArr xs | node \<Rightarrow> JArr [node])
       \<and> outcome (getPharmacyData_part_001 axios_get parseString env q)
           = Responded 200 (case items of JArr xs \<Rightarrow> JArr xs | node \<Rightarrow> JArr [node])
       \<and> outcome (getPharmacyData_part_000 axios_get parseString env q)
           = Responded 200 (case items of JArr xs \<Rightarrow> JArr xs | node \<Rightarrow> JArr [node])"
proof -
  have wrap: "(if isArray items then items else JArr [items])
                = (case items of JArr xs \<Rightarrow> JArr xs | node \<Rightarrow> JArr [node])"
    by (cases items) simp_all
  have a: "outcome (getPharmacyData axios_get parseString env q)
             = Responded 200 (if isArray items then items else JArr [items])"
    using assms
    by (simp add: getPharmacyData_def Let_def reply_items_def fetch_items_def axios_error_def)
  have b: "outcome (getPharmacyData_part_001 axios_get parseString env q)
             = Responded 200 (if isArray items then items else JArr [items])"
    using assms
    by (simp add: getPharmacyData_part_001_def Let_def reply_items_def fetch_items_def axios_error_def)
  have c: "outcome (getPharmacyData_part_000 axios_get parseString env q)
             = Responded 200 (if isArray items then items else JArr [items])"
    using assms
    by (simp add: getPharmacyData_part_000_def Let_def pharmacyList_def fetch_items_def axios_error_def)
  show ?thesis using a b c by (simp only: wrap)
qed

theorem C1_items_normalised_witness:
  "outcome (getPharmacyData upstream_ok (parse_to (wrap_items record_A)) (Some (u16 ''KEY'')) sample_query)
     = Responded 200 (JArr [record_A])
   \<and> outcome (getPharmacyData_part_001 upstream_ok (parse_to (wrap_items (JArr [record_B, record_A])))
        (Some (u16 ''KEY'')) sample_query)
     = Responded 200 (JArr [record_B, record_A])
   \<and> outcome (getPharmacyData_part_000 upstream_ok (parse_to (wrap_items (JArr [record_B, record_A])))
        (Some (u16 ''KEY'')) sample_query)
     = Responded 200 (JArr [record_B, record_A])"
  using C1_items_normalised [of "Some (u16 ''KEY'')" "u16 ''KEY''" sample_query upstream_ok 200
      "u16 ''<response/>''" "parse_to (wrap_items record_A)" "wrap_items record_A" record_A]
    C1_items_normalised [of "Some (u16 ''KEY'')" "u16 ''KEY''" sample_query upstream_ok 200
      "u16 ''<response/>''" "parse_to (wrap_items (JArr [record_B, record_A]))"
      "wrap_items (JArr [record_B, record_A])" "JArr [record_B, record_A]"]
  by (simp add: sample_query_truthy upstream_ok_def parse_to_def items_of_wrap_items record_A_def u16_eq_Nil)

text \<open>
  C2. When the upstream call succeeds, its body parses, and the path
  \<^verbatim>\<open>response.body.items.item\<close> is absent, each of the three handlers answers 200 with
  the empty array.
\<close>

theorem C2_absent_items:
  assumes "env = Some serviceKey" and "serviceKey \<noteq> []"
    and "truthy (Q0 q)" and "truthy (Q1 q)" and "truthy (DG q)"
    and "axios_get (url_template serviceKey (Q0 q) (Q1 q) (DG q)) = Inr (Response st (JStr xmlData))"
    and "axios_get (url_template serviceKey (Q0 q) (Q1 q) (convert_DG (DG q)))
           = Inr (Response st (JStr xmlData))"
    and "axios_get (apiUrl_part_000 serviceKey q) = Inr (Response st (JStr xmlData))"
    and "parseString xmlData = Inr jsonData"
    and "items_of jsonData = JUndefined"
  shows "outcome (getPharmacyData axios_get parseString env q) = Responded 200 (JArr [])
       \<and> outcome (getPharmacyData_part_001 axios_get parseString env q) = Responded 200 (JArr [])
       \<and> outcome (getPharmacyData_part_000 axios_get parseString env q) = Responded 200 (JArr [])"
proof -
  have a: "outcome (getPharmacyData axios_get parseString env q) = Responded 200 (JArr [])"
    using assms by (simp add: getPharmacyData_def Let_def reply_items_def fetch_items_def axios_error_def)
  have b: "outcome (getPharmacyData_part_001 axios_get parseString env q) = Responded 200 (JArr [])"
    using assms by (simp add: getPharmacyData_part_001_def Let_def reply_items_def fetch_items_def axios_error_def)
  have c: "outcome (getPharmacyData_part_000 axios_get parseString env q) = Responded 200 (JArr [])"
    using assms by (simp add: getPharmacyData_part_000_def Let_def pharmacyList_def fetch_items_def axios_error_def)
  show ?thesis using a b c by simp
qed

theorem C2_absent_items_witness:
  "outcome (getPharmacyData upstream_ok (parse_to (JObj [(u16 ''response'', JStr [])]))
      (Some (u16 ''KEY'')) sample_query) = Responded 200 (JArr [])
   \<and> outcome (getPharmacyData_part_001 upstream_ok (parse_to (JObj [(u16 ''response'', JStr [])]))
      (Some (u16 ''KEY'')) sample_query) = Responded 200 (JArr [])
   \<and> outcome (getPharmacyData_part_000 upstream_ok (parse_to (JObj [(u16 ''response'', JStr [])]))
      (Some (u16 ''KEY'')) sample_query) = Responded 200 (JArr [])"
  using C2_absent_items [of "Some (u16 ''KEY'')" "u16 ''KEY''" sample_query upstream_ok 200
      "u16 ''<response/>''" "parse_to (JObj [(u16 ''response'', JStr [])])"
      "JObj [(u16 ''response'', JStr [])]"]
  by (simp add: sample_query_truthy upstream_ok_def parse_to_def items_of_no_body u16_eq_Nil)

text \<open>
  C3, as stated for every request with a missing parameter, fails twice. With no
  credential and no \<^verbatim>\<open>Q0\<close>, \<^verbatim>\<open>index.js\<close> answers 500. With a credential and no
  \<^verbatim>\<open>Q0\<close>, \<^verbatim>\<open>part_000\<close> substitutes its default, calls the upstream and answers 200.
\<close>

theorem C3_counterexample:
  "outcome (getPharmacyData upstream_ok parse_fails None no_Q0_query)
     = Responded 500 (json_message msg_config)
   \<and> calls (getPharmacyData_part_000 upstream_ok (parse_to JNull) (Some (u16 ''KEY'')) no_Q0_query)
     = [apiUrl_part_000 (u16 ''KEY'') no_Q0_query]
   \<and> outcome (getPharmacyData_part_000 upstream_ok (parse_to JNull) (Some (u16 ''KEY'')) no_Q0_query)
     = Responded 200 (JArr [])"
  by (simp add: getPharmacyData_def getPharmacyData_part_000_def config_error_def Let_def
      fetch_items_def axios_error_def upstream_ok_def parse_to_def items_of_def pharmacyList_def u16_eq_Nil)

text \<open>
  C3, amended. When the credential is configured and one of \<^verbatim>\<open>Q0\<close>, \<^verbatim>\<open>Q1\<close>, \<^verbatim>\<open>DG\<close>
  is missing or empty, \<^verbatim>\<open>index.js\<close> and \<^verbatim>\<open>part_001\<close> answer 400 with the fixed message
  and request no URL; \<^verbatim>\<open>part_000\<close> has no such check and requests the URL built with
  its defaults.
\<close>

theorem C3_missing_parameter:
  assumes "env = Some serviceKey" and "serviceKey \<noteq> []"
    and "\<not> truthy (Q0 q) \<or> \<not> truthy (Q1 q) \<or> \<not> truthy (DG q)"
  shows "outcome (getPharmacyData axios_get parseString env q)
           = Responded 400 (json_message msg_params)
       \<and> calls (getPharmacyData axios_get parseString env q) = []
       \<and> outcome (getPharmacyData_part_001 axios_get parseString env q)
           = Responded 400 (json_message msg_params)
       \<and> calls (getPharmacyData_part_001 axios_get parseString env q) = []
       \<and> calls (getPharmacyData_part_000 axios_get parseString env q)
           = [apiUrl_part_000 serviceKey q]"
proof -
  have a: "getPharmacyData axios_get parseString env q = params_error"
    using assms by (auto simp: getPharmacyData_def)
  have b: "getPharmacyData_part_001 axios_get parseString env q = params_error"
    using assms by (auto simp: getPharmacyData_part_001_def)
  have c: "calls (getPharmacyData_part_000 axios_get parseString env q)
             = [apiUrl_part_000 serviceKey q]"
    using assms(1,2)
    by (simp add: getPharmacyData_part_000_def Let_def split: prod.splits sum.splits)
  show ?thesis using a b c by (simp add: params_error_def)
qed

theorem C3_missing_parameter_witness:
  "outcome (getPharmacyData upstream_ok parse_fails (Some (u16 ''KEY'')) no_Q0_query)
     = Responded 400 (json_message msg_params)
   \<and> calls (getPharmacyData upstream_ok parse_fails (Some (u16 ''KEY'')) no_Q0_query) = []
   \<and> outcome (getPharmacyData_part_001 upstream_ok parse_fails (Some (u16 ''KEY'')) no_Q0_query)
     = Responded 400 (json_message msg_params)
   \<and> calls (getPharmacyData_part_001 upstream_ok parse_fails (Some (u16 ''KEY'')) no_Q0_query) = []
   \<and> calls (getPharmacyData_part_000 upstream_ok parse_fails (Some (u16 ''KEY'')) no_Q0_query)
     = [apiUrl_part_000 (u16 ''KEY'') no_Q0_query]"
  using C3_missing_parameter [of "Some (u16 ''KEY'')" "u16 ''KEY''" no_Q0_query upstream_ok parse_fails]
  by (simp add: no_Q0_query_def u16_eq_Nil)

text \<open>
  C4. When the environment value is unset or empty, each of the three handlers answers
  500 with the fixed configuration message and requests no URL, whatever the query, the
  upstream and the parser are.
\<close>

theorem C4_missing_credential:
  assumes "env = None \<or> env = Some []"
  shows "outcome (getPharmacyData axios_get parseString env q)
           = Responded 500 (json_message msg_config)
       \<and> calls (getPharmacyData axios_get parseString env q) = []
       \<and> outcome (getPharmacyData_part_001 axios_get parseString env q)
           = Responded 500 (json_message msg_config)
       \<and> calls (getPharmacyData_part_001 axios_get parseString env q) = []
       \<and> outcome (getPharmacyData_part_000 axios_get parseString env q)
           = Responded 500 (json_message msg_config)
       \<and> calls (getPharmacyData_part_000 axios_get parseString env q) = []"
  by (simp add: no_key_index [OF assms] no_key_part_001 [OF assms] no_key_part_000 [OF assms]
      config_error_def)

theorem C4_missing_credential_witness:
  "outcome (getPharmacyData upstream_ok parse_fails None sample_query)
     = Responded 500 (json_message msg_config)
   \<and> calls (getPharmacyData upstream_ok parse_fails None sample_query) = []
   \<and> outcome (getPharmacyData_part_001 upstream_ok parse_fails None sample_query)
     = Responded 500 (json_message msg_config)
   \<and> calls (getPharmacyData_part_001 upstream_ok parse_fails None sample_query) = []
   \<and> outcome (getPharmacyData_part_000 upstream_ok parse_fails None sample_query)
     = Responded 500 (json_message msg_config)
   \<and> calls (getPharmacyData_part_000 upstream_ok parse_fails None sample_query) = []"
  using C4_missing_credential [of None upstream_ok parse_fails sample_query] by simp

text \<open>
  C5, as stated, fails: for an upstream 404 whose body parses and carries a result
  message, \<^verbatim>\<open>index.js\<close> answers 404 with the message prefixed by the fixed text of the
  template, which is not the extracted text; \<^verbatim>\<open>part_000\<close> answers 500 with its fixed
  message, the error's message and the raw body.
\<close>

theorem C5_counterexample:
  "outcome (getPharmacyData upstream_rejects (parse_to (wrap_resultMsg (JStr key_error_text)))
      (Some (u16 ''KEY'')) sample_query)
     = Responded 404 (json_message (msg_prefix @ key_error_text))
   \<and> json_message (msg_prefix @ key_error_text) \<noteq> json_message key_error_text
   \<and> outcome (getPharmacyData_part_000 upstream_rejects
        (parse_to (wrap_resultMsg (JStr key_error_text))) (Some (u16 ''KEY'')) sample_query)
     = Responded 500
         (JObj [(u16 ''message'', JStr msg_failed),
                (u16 ''error'', JStr (u16 ''Request failed with status code 404'')),
                (u16 ''detail'', JStr (u16 ''<response/>''))])"
proof -
  have k: "key_error_text \<noteq> []"
    by (simp add: key_error_text_def u16_eq_Nil)
  have a: "outcome (getPharmacyData upstream_rejects
             (parse_to (wrap_resultMsg (JStr key_error_text))) (Some (u16 ''KEY'')) sample_query)
           = Responded 404 (json_message (msg_prefix @ key_error_text))"
    using k
    by (simp add: getPharmacyData_def sample_query_truthy u16_eq_Nil Let_def fetch_items_def axios_error_def
        upstream_rejects_def getPharmacyData_catch_def parse_to_def resultMsg_of_wrap js_or_def)
  have b: "json_message (msg_prefix @ key_error_text) \<noteq> json_message key_error_text"
    by (simp add: json_message_def msg_prefix_def)
  have c: "outcome (getPharmacyData_part_000 upstream_rejects
        (parse_to (wrap_resultMsg (JStr key_error_text))) (Some (u16 ''KEY'')) sample_query)
     = Responded 500
         (JObj [(u16 ''message'', JStr msg_failed),
                (u16 ''error'', JStr (u16 ''Request failed with status code 404'')),
                (u16 ''detail'', JStr (u16 ''<response/>''))])"
    by (simp add: getPharmacyData_part_000_def u16_eq_Nil Let_def fetch_items_def axios_error_def
        upstream_rejects_def getPharmacyData_part_000_catch_def)
  show ?thesis using a b c by simp
qed

text \<open>
  C5, amended. When the upstream call fails with a non-empty string body that parses
  and holds a non-empty string at \<^verbatim>\<open>response.header.resultMsg\<close>, \<^verbatim>\<open>index.js\<close> and
  \<^verbatim>\<open>part_001\<close> answer with the upstream's status and a message that is the fixed
  prefix of the template followed by that string; \<^verbatim>\<open>part_000\<close> does not parse the
  body and answers 500 with its fixed message, the error's message and the raw body.
\<close>

theorem C5_upstream_message:
  assumes "env = Some serviceKey" and "serviceKey \<noteq> []"
    and "truthy (Q0 q)" and "truthy (Q1 q)" and "truthy (DG q)"
    and "axios_get (url_template serviceKey (Q0 q) (Q1 q) (DG q))
           = Inl (Error m (Some (Response st (JStr d))) c)"
    and "axios_get (url_template serviceKey (Q0 q) (Q1 q) (convert_DG (DG q)))
           = Inl (Error m (Some (Response st (JStr d))) c')"
    and "axios_get (apiUrl_part_000 serviceKey q)
           = Inl (Error m (Some (Response st (JStr d))) c'')"
    and "d \<noteq> []"
    and "parseString d = Inr errorJson"
    and "resultMsg_of errorJson = JStr t" and "t \<noteq> []"
  shows "outcome (getPharmacyData axios_get parseString env q)
           = Responded st (json_message (msg_prefix @ t))
       \<and> outcome (getPharmacyData_part_001 axios_get parseString env q)
           = Responded st (json_message (msg_prefix @ t))
       \<and> outcome (getPharmacyData_part_000 axios_get parseString env q)
           = Responded 500
               (JObj [(u16 ''message'', JStr msg_failed), (u16 ''error'', JStr m),
                      (u16 ''detail'', JStr d)])"
proof -
  have a: "outcome (getPharmacyData axios_get parseString env q)
             = Responded st (json_message (msg_prefix @ t))"
    using assms
    by (simp add: getPharmacyData_def Let_def fetch_items_def axios_error_def getPharmacyData_catch_def js_or_def)
  have b: "outcome (getPharmacyData_part_001 axios_get parseString env q)
             = Responded st (json_message (msg_prefix @ t))"
    using assms
    by (simp add: getPharmacyData_part_001_def Let_def fetch_items_def axios_error_def
        getPharmacyData_part_001_catch_def js_or_def)
  have c: "outcome (getPharmacyData_part_000 axios_get parseString env q)
             = Responded 500
                 (JObj [(u16 ''message'', JStr msg_failed), (u16 ''error'', JStr m),
                        (u16 ''detail'', JStr d)])"
    using assms
    by (simp add: getPharmacyData_part_000_def Let_def fetch_items_def axios_error_def
        getPharmacyData_part_000_catch_def)
  show ?thesis using a b c by simp
qed

theorem C5_upstream_message_witness:
  "outcome (getPharmacyData upstream_rejects (parse_to (wrap_resultMsg (JStr (u16 ''NODATA_ERROR''))))
      (Some (u16 ''KEY'')) sample_query)
     = Responded 404 (json_message (msg_prefix @ u16 ''NODATA_ERROR''))
   \<and> outcome (getPharmacyData_part_001 upstream_rejects
        (parse_to (wrap_resultMsg (JStr (u16 ''NODATA_ERROR'')))) (Some (u16 ''KEY'')) sample_query)
     = Responded 404 (json_message (msg_prefix @ u16 ''NODATA_ERROR''))
   \<and> outcome (getPharmacyData_part_000 upstream_rejects
        (parse_to (wrap_resultMsg (JStr (u16 ''NODATA_ERROR'')))) (Some (u16 ''KEY'')) sample_query)
     = Responded 500
         (JObj [(u16 ''message'', JStr msg_failed),
                (u16 ''error'', JStr (u16 ''Request failed with status code 404'')),
                (u16 ''detail'', JStr (u16 ''<response/>''))])"
  using C5_upstream_message [of "Some (u16 ''KEY'')" "u16 ''KEY''" sample_query upstream_rejects
      "u16 ''Request failed with status code 404''" 404 "u16 ''<response/>''"
      "Some (url_template (u16 ''KEY'') (Q0 sample_query) (Q1 sample_query) (DG sample_query))"
      "Some (url_template (u16 ''KEY'') (Q0 sample_query) (Q1 sample_query)
         (convert_DG (DG sample_query)))"
      "Some (apiUrl_part_000 (u16 ''KEY'') sample_query)"
      "parse_to (wrap_resultMsg (JStr (u16 ''NODATA_ERROR'')))"
      "wrap_resultMsg (JStr (u16 ''NODATA_ERROR''))" "u16 ''NODATA_ERROR''"]
  by (simp add: sample_query_truthy upstream_rejects_def parse_to_def resultMsg_of_wrap u16_eq_Nil)

text \<open>
  C6. An upstream failure whose body the HTTP client decoded from JSON, so that it is
  an object and not XML text: in \<^verbatim>\<open>part_001\<close> the \<^verbatim>\<open>substring\<close> call of line 94
  throws, the catch block of line 101 runs, and the \<^verbatim>\<open>substring\<close> call of line 103
  throws again, out of the handler; no response is sent. \<^verbatim>\<open>index.js\<close>, which has
  neither call, answers 500 with its malformed-response message on the same input.
\<close>

theorem C6_part_001_uncaught:
  "outcome (getPharmacyData_part_001 upstream_rejects_json parse_fails (Some (u16 ''KEY''))
      sample_query)
     = Uncaught (Error (u16 ''error.response.data.substring is not a function'') None None)
   \<and> outcome (getPharmacyData upstream_rejects_json parse_fails (Some (u16 ''KEY'')) sample_query)
     = Responded 500 (json_message msg_bad_format)"
  by (simp add: getPharmacyData_part_001_def getPharmacyData_def sample_query_truthy u16_eq_Nil
      Let_def fetch_items_def axios_error_def upstream_rejects_json_def getPharmacyData_part_001_catch_def
      getPharmacyData_catch_def parse_fails_def substring_TypeError_def u16_def)

theorem C6_part_001_uncaught_witness:
  "outcome (getPharmacyData_part_001 upstream_rejects_json parse_fails (Some (u16 ''KEY''))
      sample_query)
     \<noteq> Responded 500 (json_message msg_bad_format_or_network)"
  using C6_part_001_uncaught by simp

text \<open>
  C7. The label \<^verbatim>\<open>constructor\<close> is not one of the eight keys of \<^verbatim>\<open>dayMap\<close>, but
  \<^verbatim>\<open>dayMap[DG]\<close> finds the built-in function of that name on the prototype, which is
  truthy; the URL requested then carries the text of that function as \<^verbatim>\<open>DG\<close>, not
  the label received.
\<close>

theorem C7_inherited_property:
  "convert_DG (DG constructor_query) = JFun (u16 ''Object'')
   \<and> calls (getPharmacyData_part_001 upstream_ok (parse_to JNull) (Some (u16 ''KEY''))
        constructor_query)
     = [u16 ''http://apis.data.go.kr/B552657/ErmctInsttInfoInqireService/getParmacyList?ServiceKey=KEY&Q0=a&Q1=b&DG=function Object() { [native code] }&pageNo=1&numOfRows=10'']
   \<and> map_of dayMap (u16 ''constructor'') = None"
  by code_simp

theorem C7_inherited_property_witness:
  "calls (getPharmacyData_part_001 upstream_ok (parse_to JNull) (Some (u16 ''KEY''))
        constructor_query)
     \<noteq> [url_template (u16 ''KEY'') (Q0 constructor_query) (Q1 constructor_query)
          (DG constructor_query)]"
  using C7_inherited_property
  by (simp add: url_template_def constructor_query_def u16_def)

text \<open>
  C8. The first console line of \<^verbatim>\<open>part_000\<close> (line 44) is the URL it is about to
  request, credential included.
\<close>

theorem C8_part_000_logs_credential:
  "logs (getPharmacyData_part_000 upstream_down parse_fails (Some (u16 ''SECRETKEY'')) ascii_query) ! 0
     = (Log, [LVal (JStr (u16 ''Calling API: http://apis.data.go.kr/B552657/ErmctInsttInfoInqireService/getParmacyListInfoInqire?serviceKey=SECRETKEY&Q0=a&Q1=b&DG=1''))])
   \<and> occurs_in (u16 ''SECRETKEY'')
        (u16 ''Calling API: http://apis.data.go.kr/B552657/ErmctInsttInfoInqireService/getParmacyListInfoInqire?serviceKey=SECRETKEY&Q0=a&Q1=b&DG=1'')"
  by code_simp

theorem C8_part_000_logs_credential_witness:
  "logs (getPharmacyData_part_000 upstream_down parse_fails (Some (u16 ''SECRETKEY'')) ascii_query) ! 0
     \<noteq> (Log, [LVal (JStr (u16 ''Calling API: http://apis.data.go.kr/B552657/ErmctInsttInfoInqireService/getParmacyListInfoInqire?serviceKey=***&Q0=a&Q1=b&DG=1''))])"
  using C8_part_000_logs_credential
  by (simp add: u16_def)

text \<open>
  C9. When the environment value is unset or empty and a required parameter is missing
  as well, the answer is the 500 configuration error and not the 400 answer of the
  parameter check, which comes second in \<^verbatim>\<open>index.js\<close> and \<^verbatim>\<open>part_001\<close> and does not
  exist in \<^verbatim>\<open>part_000\<close>.
\<close>

theorem C9_config_error_first:
  assumes "env = None \<or> env = Some []"
    and "\<not> truthy (Q0 q) \<or> \<not> truthy (Q1 q) \<or> \<not> truthy (DG q)"
  shows "outcome (getPharmacyData axios_get parseString env q)
           = Responded 500 (json_message msg_config)
       \<and> outcome (getPharmacyData_part_001 axios_get parseString env q)
           = Responded 500 (json_message msg_config)
       \<and> outcome (getPharmacyData_part_000 axios_get parseString env q)
           = Responded 500 (json_message msg_config)
       \<and> outcome (getPharmacyData axios_get parseString env q) \<noteq> outcome params_error
       \<and> outcome (getPharmacyData_part_001 axios_get parseString env q) \<noteq> outcome params_error"
  by (simp add: no_key_index [OF assms(1)] no_key_part_001 [OF assms(1)]
      no_key_part_000 [OF assms(1)] config_error_def params_error_def)

theorem C9_config_error_first_witness:
  "outcome (getPharmacyData upstream_ok parse_fails (Some []) no_Q0_query)
     = Responded 500 (json_message msg_config)
   \<and> outcome (getPharmacyData_part_001 upstream_ok parse_fails (Some []) no_Q0_query)
     = Responded 500 (json_message msg_config)
   \<and> outcome (getPharmacyData_part_000 upstream_ok parse_fails (Some []) no_Q0_query)
     = Responded 500 (json_message msg_config)"
  using C9_config_error_first [of "Some []" no_Q0_query upstream_ok parse_fails]
  by (simp add: no_Q0_query_def)

text \<open>
  C10. When the value at \<^verbatim>\<open>response.body.items.item\<close> is present but falsy, such as
  the empty string an empty element parses to, each of the three handlers answers 200
  with the empty array, not with an array holding that value.
\<close>

theorem C10_falsy_items:
  assumes "env = Some serviceKey" and "serviceKey \<noteq> []"
    and "truthy (Q0 q)" and "truthy (Q1 q)" and "truthy (DG q)"
    and "axios_get (url_template serviceKey (Q0 q) (Q1 q) (DG q)) = Inr (Response st (JStr xmlData))"
    and "axios_get (url_template serviceKey (Q0 q) (Q1 q) (convert_DG (DG q)))
           = Inr (Response st (JStr xmlData))"
    and "axios_get (apiUrl_part_000 serviceKey q) = Inr (Response st (JStr xmlData))"
    and "parseString xmlData = Inr jsonData"
    and "items_of jsonData = items" and "items \<noteq> JUndefined" and "\<not> truthy items"
  shows "outcome (getPharmacyData axios_get parseString env q) = Responded 200 (JArr [])
       \<and> outcome (getPharmacyData_part_001 axios_get parseString env q) = Responded 200 (JArr [])
       \<and> outcome (getPharmacyData_part_000 axios_get parseString env q) = Responded 200 (JArr [])
       \<and> Responded 200 (JArr []) \<noteq> Responded 200 (JArr [items])"
proof -
  have a: "outcome (getPharmacyData axios_get parseString env q) = Responded 200 (JArr [])"
    using assms by (simp add: getPharmacyData_def Let_def reply_items_def fetch_items_def axios_error_def)
  have b: "outcome (getPharmacyData_part_001 axios_get parseString env q) = Responded 200 (JArr [])"
    using assms by (simp add: getPharmacyData_part_001_def Let_def reply_items_def fetch_items_def axios_error_def)
  have c: "outcome (getPharmacyData_part_000 axios_get parseString env q) = Responded 200 (JArr [])"
    using assms by (simp add: getPharmacyData_part_000_def Let_def pharmacyList_def fetch_items_def axios_error_def)
  show ?thesis using a b c by simp
qed

theorem C10_falsy_items_witness:
  "outcome (getPharmacyData upstream_ok (parse_to (wrap_items (JStr []))) (Some (u16 ''KEY''))
      sample_query) = Responded 200 (JArr [])
   \<and> outcome (getPharmacyData_part_001 upstream_ok (parse_to (wrap_items (JStr [])))
      (Some (u16 ''KEY'')) sample_query) = Responded 200 (JArr [])
   \<and> outcome (getPharmacyData_part_000 upstream_ok (parse_to (wrap_items (JStr [])))
      (Some (u16 ''KEY'')) sample_query) = Responded 200 (JArr [])"
  using C10_falsy_items [of "Some (u16 ''KEY'')" "u16 ''KEY''" sample_query upstream_ok 200
      "u16 ''<response/>''" "parse_to (wrap_items (JStr []))" "wrap_items (JStr [])" "JStr []"]
  by (simp add: sample_query_truthy upstream_ok_def parse_to_def items_of_wrap_items u16_eq_Nil)

end
